theory Spec2Isabelle
  imports Main
begin

section \<open>The bootstrap of machine-api-migration (cmd/machine-api-migration/main.go)\<close>

text \<open>
  The file has two functions that matter, \<^verbatim>\<open>main\<close> and \<^verbatim>\<open>getFeatureGates\<close>. Both are
  straight-line code with early exits around calls into libraries and the cluster. The
  embedding follows the main goroutine: every call whose result the code branches on reads
  its result from an environment record, every call the claims speak about is recorded in a
  trace of events in program order, and every way the process can end (\<^verbatim>\<open>os.Exit\<close>, a
  panic, returning from \<^verbatim>\<open>main\<close>, blocking forever) is an outcome.
\<close>

subsection \<open>Data\<close>

text \<open>\<^verbatim>\<open>time.Duration\<close> counts nanoseconds.\<close>

type_synonym duration = int

definition Second :: duration where
  "Second = 1000000000"

definition Minute :: duration where
  "Minute = 60 * Second"

text \<open>Errors: the package's own distinguished error, \<^verbatim>\<open>fmt.Errorf("...: %w", err)\<close>, and
  errors handed back by the libraries.\<close>

datatype error =
    errTimedOutWaitingForFeatureGates
  | Errorf string error
  | LibError string

text \<open>\<^verbatim>\<open>config.LeaderElectionConfiguration\<close> (the fields \<^verbatim>\<open>main\<close> sets).\<close>

record leader_election_configuration =
  LeaderElect :: bool
  LeaseDuration :: duration
  RenewDeadline :: duration
  RetryPeriod :: duration
  ResourceName :: string
  ResourceNamespace :: string

text \<open>\<^verbatim>\<open>capiflags.DiagnosticsOptions\<close> and the metrics server options made from it.\<close>

record diagnostics_options =
  MetricsBindAddr :: string
  DiagnosticsAddress :: string
  InsecureDiagnostics :: bool

record metrics_options =
  BindAddress :: string
  SecureServing :: bool

text \<open>\<^verbatim>\<open>cache.Config{}\<close> and \<^verbatim>\<open>cache.Options\<close>.\<close>

datatype cache_config = EmptyConfig

record cache_options =
  DefaultNamespaces :: "string \<rightharpoonup> cache_config"
  SyncPeriod :: "duration option"

text \<open>The scheme holds the API groups added to it.\<close>

datatype api_group = mapiv1beta1

text \<open>\<^verbatim>\<open>ctrl.Options\<close>, the fields \<^verbatim>\<open>main\<close> fills in. The three durations are pointers in
  Go (\<^verbatim>\<open>nil\<close> lets the library choose); \<^verbatim>\<open>main\<close> always passes an address.\<close>

record ctrl_options =
  Scheme :: "api_group list"
  Metrics :: metrics_options
  HealthProbeBindAddress :: string
  LeaderElectionNamespace :: string
  LeaderElection :: bool
  Options_LeaseDuration :: "duration option"
  LeaderElectionID :: string
  Options_RetryPeriod :: "duration option"
  Options_RenewDeadline :: "duration option"
  Cache :: cache_options

text \<open>The command line after parsing: for each flag the value supplied, if any.\<close>

record cmdline =
  flag_health_addr :: "string option"
  flag_namespace :: "string option"
  flag_logtostderr :: "bool option"
  flag_metrics_bind_addr :: "string option"
  flag_diagnostics_address :: "string option"
  flag_insecure_diagnostics :: "bool option"
  flag_leader_elect :: "bool option"
  flag_leader_elect_lease_duration :: "duration option"
  flag_leader_elect_renew_deadline :: "duration option"
  flag_leader_elect_retry_period :: "duration option"
  flag_leader_elect_resource_name :: "string option"
  flag_leader_elect_resource_namespace :: "string option"

text \<open>A context is either \<^verbatim>\<open>context.Background()\<close> or the one returned by
  \<^verbatim>\<open>ctrl.SetupSignalHandler()\<close>.\<close>

datatype gocontext = Background | SignalContext

text \<open>The informer factory, its informers, the event recorder and the accessor, as the
  values they are constructed from.\<close>

datatype informer_factory = SharedInformerFactory duration

datatype informer = ClusterVersions informer_factory | FeatureGates informer_factory

datatype recorder = LoggingEventRecorder string

datatype accessor = FeatureGateAccess string string informer informer recorder

text \<open>\<^verbatim>\<open>featuregates.FeatureGate\<close>, an interface with two methods.\<close>

record feature_gate =
  Enabled :: "string \<Rightarrow> bool"
  KnownFeatures :: "string list"

definition FeatureGateMachineAPIMigration :: string where
  "FeatureGateMachineAPIMigration = ''MachineAPIMigration''"

subsection \<open>The environment\<close>

text \<open>
  What the code reads from outside this file. Constants and functions of the repository's
  own packages \<^verbatim>\<open>pkg/util\<close> and \<^verbatim>\<open>pkg/controllers\<close> are parameters; so is the result of
  every library call the code branches on. \<open>snapshot n\<close> is the feature-gate snapshot the
  accessor holds when it is read for the \<open>n\<close>-th time.
\<close>

record env =
  util_LeaseDuration :: duration
  util_RenewDeadline :: duration
  util_RetryPeriod :: duration
  util_GetReleaseVersion :: string
  controllers_DefaultManagedNamespace :: string
  AddToScheme :: "error option"
  pflag_Parse :: "cmdline option"
  GetConfig :: "error option"
  NewManager :: "ctrl_options \<Rightarrow> error option"
  NewForConfig :: "error option"
  observed_at :: "duration option"
  select_tie_observed :: bool
  snapshot :: "nat \<Rightarrow> feature_gate"
  AddHealthzCheck :: "error option"
  AddReadyzCheck :: "error option"
  signal_fires :: bool
  Start_error :: "error option"

text \<open>
  The accessor's \<^verbatim>\<open>CurrentFeatureGates\<close> (github.com/openshift/library-go) is library code.
  It returns a Go pair (snapshot, error). The accessor signals its initial observation once
  it has seen a snapshot for the running version; from then on a read hands back the snapshot
  it holds and no error, and the error is its reply to a read made before that. Both calls
  in this file are made after the signal: line 201 stands in the \<^verbatim>\<open>select\<close> case that
  received it, and \<^verbatim>\<open>main\<close> reaches line 144 only when \<^verbatim>\<open>getFeatureGates\<close> has returned
  the accessor. The argument is the number of the call. What the code does with an error or
  with a nil snapshot (the check of lines 145 to 148, the calls on the snapshot in lines 150
  and 202) stays in the definitions below as the source has it.
\<close>

definition CurrentFeatureGates :: "env \<Rightarrow> nat \<Rightarrow> feature_gate option \<times> error option" where
  "CurrentFeatureGates e n = (Some (snapshot e n), None)"

subsection \<open>Events and outcomes\<close>

datatype event =
    NewScheme
  | SchemeAdd api_group
  | SetLogger
  | Parse
  | LogToStderr bool
  | GetConfigOrDie
  | CallNewManager ctrl_options
  | SetupSignalHandler
  | GetReleaseVersion
  | CallNewForConfig
  | NewSharedInformerFactory informer_factory
  | NewFeatureGateAccess accessor
  | GoRun accessor gocontext
  | GoStart informer_factory gocontext
  | Select duration
  | CallCurrentFeatureGates
  | KlogInfof string "string list"
  | KlogInfo string
  | KlogError error string
  | AwaitDone gocontext
  | CallAddHealthzCheck string
  | CallAddReadyzCheck string
  | MgrStart gocontext

datatype outcome = Exited int | MainReturned | Panicked | Blocked

text \<open>A call either returns or panics.\<close>

datatype 'a call = Return 'a | Panic

type_synonym run = "event list \<times> outcome"

definition emit :: "event list \<Rightarrow> run \<Rightarrow> run" where
  "emit es r = (es @ fst r, snd r)"

subsection \<open>Flags\<close>

text \<open>A flag variable holds the supplied value, and its default otherwise.\<close>

definition flagVar :: "'a \<Rightarrow> 'a option \<Rightarrow> 'a" where
  "flagVar dflt supplied = (case supplied of None \<Rightarrow> dflt | Some v \<Rightarrow> v)"

definition leaderElectionConfig :: "env \<Rightarrow> leader_election_configuration" where
  "leaderElectionConfig e =
     \<lparr> LeaderElect = True,
       LeaseDuration = util_LeaseDuration e,
       RenewDeadline = util_RenewDeadline e,
       RetryPeriod = util_RetryPeriod e,
       ResourceName = ''machine-api-migration-leader'',
       ResourceNamespace = ''openshift-cluster-api'' \<rparr>"

text \<open>The literal of lines 69 to 71 names one field; the others have Go's zero values.\<close>

definition diagnosticsOptions :: diagnostics_options where
  "diagnosticsOptions =
     \<lparr> MetricsBindAddr = '':8081'', DiagnosticsAddress = [], InsecureDiagnostics = False \<rparr>"

text \<open>
  \<^verbatim>\<open>options.BindLeaderElectionFlags\<close> (k8s.io/component-base) is library code. It binds
  each field of the configuration to its \<^verbatim>\<open>--leader-elect...\<close> flag with the field's
  current value as the default, so after \<^verbatim>\<open>pflag.Parse\<close> a field holds the flag's value
  when the flag was supplied.
\<close>

definition BindLeaderElectionFlags ::
  "leader_election_configuration \<Rightarrow> cmdline \<Rightarrow> leader_election_configuration" where
  "BindLeaderElectionFlags l fs =
     \<lparr> LeaderElect = flagVar (LeaderElect l) (flag_leader_elect fs),
       LeaseDuration = flagVar (LeaseDuration l) (flag_leader_elect_lease_duration fs),
       RenewDeadline = flagVar (RenewDeadline l) (flag_leader_elect_renew_deadline fs),
       RetryPeriod = flagVar (RetryPeriod l) (flag_leader_elect_retry_period fs),
       ResourceName = flagVar (ResourceName l) (flag_leader_elect_resource_name fs),
       ResourceNamespace =
         flagVar (ResourceNamespace l) (flag_leader_elect_resource_namespace fs) \<rparr>"

text \<open>
  \<^verbatim>\<open>capiflags.AddDiagnosticsOptions\<close> and \<^verbatim>\<open>capiflags.GetDiagnosticsOptions\<close>
  (sigs.k8s.io/cluster-api) are library code. The first registers three flags on the fields
  of the options it is given: \<^verbatim>\<open>--metrics-bind-addr\<close> (deprecated) with the default
  \<^verbatim>\<open>""\<close>, \<^verbatim>\<open>--diagnostics-address\<close> with the default \<^verbatim>\<open>":8443"\<close>, and
  \<^verbatim>\<open>--insecure-diagnostics\<close> with the default false. Registering a flag on a variable
  stores the registration's own default into the variable, so what the fields held before
  the call is overwritten; after parsing, a field holds its flag's value where the flag was
  supplied. The second serves the metrics on the deprecated address, without
  authentication, when that address is not empty, and on the diagnostics address otherwise:
  insecurely when asked to, else with authentication.
\<close>

definition AddDiagnosticsOptions :: "cmdline \<Rightarrow> diagnostics_options \<Rightarrow> diagnostics_options" where
  "AddDiagnosticsOptions fs d =
     \<lparr> MetricsBindAddr = flagVar [] (flag_metrics_bind_addr fs),
       DiagnosticsAddress = flagVar '':8443'' (flag_diagnostics_address fs),
       InsecureDiagnostics = flagVar False (flag_insecure_diagnostics fs) \<rparr>"

definition GetDiagnosticsOptions :: "diagnostics_options \<Rightarrow> metrics_options" where
  "GetDiagnosticsOptions d =
     (if MetricsBindAddr d \<noteq> []
      then \<lparr> BindAddress = MetricsBindAddr d, SecureServing = False \<rparr>
      else if InsecureDiagnostics d
      then \<lparr> BindAddress = DiagnosticsAddress d, SecureServing = False \<rparr>
      else \<lparr> BindAddress = DiagnosticsAddress d, SecureServing = True \<rparr>)"

definition healthAddr :: "cmdline \<Rightarrow> string" where
  "healthAddr fs = flagVar '':9441'' (flag_health_addr fs)"

definition managedNamespace :: "env \<Rightarrow> cmdline \<Rightarrow> string" where
  "managedNamespace e fs = flagVar (controllers_DefaultManagedNamespace e) (flag_namespace fs)"

definition logToStderr :: "cmdline \<Rightarrow> bool" where
  "logToStderr fs = flagVar True (flag_logtostderr fs)"

subsection \<open>Manager options\<close>

definition initScheme :: "api_group list \<Rightarrow> api_group list" where
  "initScheme scheme = scheme @ [mapiv1beta1]"

definition cacheOpts :: "env \<Rightarrow> cmdline \<Rightarrow> cache_options" where
  "cacheOpts e fs =
     (let syncPeriod = 10 * Minute in
      \<lparr> DefaultNamespaces = [managedNamespace e fs \<mapsto> EmptyConfig],
        SyncPeriod = Some syncPeriod \<rparr>)"

definition managerOptions :: "env \<Rightarrow> cmdline \<Rightarrow> ctrl_options" where
  "managerOptions e fs =
     (let lec = BindLeaderElectionFlags (leaderElectionConfig e) fs;
          diagnosticsOpts = GetDiagnosticsOptions (AddDiagnosticsOptions fs diagnosticsOptions)
      in \<lparr> Scheme = initScheme [],
           Metrics = diagnosticsOpts,
           HealthProbeBindAddress = healthAddr fs,
           LeaderElectionNamespace = ResourceNamespace lec,
           LeaderElection = LeaderElect lec,
           Options_LeaseDuration = Some (LeaseDuration lec),
           LeaderElectionID = ResourceName lec,
           Options_RetryPeriod = Some (RetryPeriod lec),
           Options_RenewDeadline = Some (RenewDeadline lec),
           Cache = cacheOpts e fs \<rparr>)"

subsection \<open>getFeatureGates\<close>

text \<open>
  The \<^verbatim>\<open>select\<close> waits on two channels: the accessor's, closed at the time
  \<open>observed_at\<close> (measured from the start of the wait; never when \<open>None\<close>), and the
  timer's, which fires after the duration given to \<^verbatim>\<open>time.After\<close>. The case whose channel
  is ready first is taken; when both become ready at the same instant Go picks one of them,
  and the environment says which.
\<close>

datatype select_case = InitialFeatureGatesObserved | TimeAfter

definition select_wait :: "duration option \<Rightarrow> duration \<Rightarrow> bool \<Rightarrow> select_case" where
  "select_wait obs d tie =
     (case obs of
        None \<Rightarrow> TimeAfter
      | Some t \<Rightarrow>
          if t < d then InitialFeatureGatesObserved
          else if t = d then (if tie then InitialFeatureGatesObserved else TimeAfter)
          else TimeAfter)"

definition getFeatureGates :: "env \<Rightarrow> event list \<times> (error + accessor) call" where
  "getFeatureGates e =
     (let desiredVersion = util_GetReleaseVersion e;
          missingVersion = ''0.0.1-snapshot''
      in case NewForConfig e of
        Some err \<Rightarrow>
          ([GetReleaseVersion, CallNewForConfig],
           Return (Inl (Errorf ''failed to create config client'' err)))
      | None \<Rightarrow>
          (let configInformers = SharedInformerFactory (10 * Minute);
               featureGateAccessor =
                 FeatureGateAccess desiredVersion missingVersion
                   (ClusterVersions configInformers) (FeatureGates configInformers)
                   (LoggingEventRecorder ''machineapimigration'');
               started =
                 [GetReleaseVersion, CallNewForConfig,
                  NewSharedInformerFactory configInformers,
                  NewFeatureGateAccess featureGateAccessor,
                  GoRun featureGateAccessor Background,
                  GoStart configInformers Background,
                  Select (1 * Minute)]
           in case select_wait (observed_at e) (1 * Minute) (select_tie_observed e) of
             InitialFeatureGatesObserved \<Rightarrow>
               (case fst (CurrentFeatureGates e 0) of
                  None \<Rightarrow> (started @ [CallCurrentFeatureGates], Panic)
                | Some featureGates \<Rightarrow>
                    (started @
                       [CallCurrentFeatureGates,
                        KlogInfof ''FeatureGates initialized: %v'' (KnownFeatures featureGates)],
                     Return (Inr featureGateAccessor)))
           | TimeAfter \<Rightarrow> (started, Return (Inl errTimedOutWaitingForFeatureGates))))"

subsection \<open>main\<close>

text \<open>Waiting on a context's \<^verbatim>\<open>Done\<close> channel ends only if the context is cancelled: the
  background context never is, the signal context is when a termination signal arrives.\<close>

definition ctx_done :: "env \<Rightarrow> gocontext \<Rightarrow> bool" where
  "ctx_done e ctx = (case ctx of Background \<Rightarrow> False | SignalContext \<Rightarrow> signal_fires e)"

text \<open>Lines 158 to 173: the two probes and the manager's event loop. \<^verbatim>\<open>mgr.Start\<close> returns
  an error if the loop fails, returns \<^verbatim>\<open>nil\<close> once its context is cancelled, and otherwise
  does not return.\<close>

definition runManager :: "env \<Rightarrow> gocontext \<Rightarrow> run" where
  "runManager e stop =
     (case AddHealthzCheck e of
        Some err \<Rightarrow>
          ([CallAddHealthzCheck ''health'', KlogError err ''unable to set up health check''],
           Exited 1)
      | None \<Rightarrow>
     (case AddReadyzCheck e of
        Some err \<Rightarrow>
          ([CallAddHealthzCheck ''health'', CallAddReadyzCheck ''check'',
            KlogError err ''unable to set up ready check''],
           Exited 1)
      | None \<Rightarrow>
     emit [CallAddHealthzCheck ''health'', CallAddReadyzCheck ''check'',
           KlogInfo ''starting manager'', MgrStart stop]
       (case Start_error e of
          Some err \<Rightarrow> ([KlogError err ''problem running manager''], Exited 1)
        | None \<Rightarrow> if ctx_done e stop then ([], MainReturned) else ([], Blocked))))"

definition notEnabledNotice :: string where
  "notEnabledNotice =
     ''MachineAPIMigration feature gate is not enabled, nothing to do. Waiting for termination signal.''"

text \<open>Lines 144 to 154: the second read of the feature gates and the branch on the gate.\<close>

definition branchOnGate :: "env \<Rightarrow> gocontext \<Rightarrow> run" where
  "branchOnGate e stop =
     (case CurrentFeatureGates e 1 of
        (_, Some err) \<Rightarrow>
          ([CallCurrentFeatureGates, KlogError err ''unable to get current feature gates''],
           Exited 1)
      | (None, None) \<Rightarrow> ([CallCurrentFeatureGates], Panicked)
      | (Some currentFeatureGates, None) \<Rightarrow>
          if \<not> Enabled currentFeatureGates FeatureGateMachineAPIMigration
          then ([CallCurrentFeatureGates, KlogInfo notEnabledNotice, AwaitDone stop],
                if ctx_done e stop then Exited 0 else Blocked)
          else emit [CallCurrentFeatureGates] (runManager e stop))"

text \<open>Lines 136 to 142: the signal handler, then the probe.\<close>

definition probeAndBranch :: "env \<Rightarrow> run" where
  "probeAndBranch e =
     (let stop = SignalContext in
      emit [SetupSignalHandler]
        (case getFeatureGates e of
           (tr, Panic) \<Rightarrow> (tr, Panicked)
         | (tr, Return (Inl err)) \<Rightarrow>
             (tr @ [KlogError err ''unable to get feature gates''], Exited 1)
         | (tr, Return (Inr featureGateAccessor)) \<Rightarrow> emit tr (branchOnGate e stop)))"

text \<open>
  Lines 58 to 132. \<^verbatim>\<open>utilruntime.Must\<close> panics on an error; \<^verbatim>\<open>pflag.Parse\<close> on the
  command-line flag set exits with status 2 when the arguments do not parse;
  \<^verbatim>\<open>ctrl.GetConfigOrDie\<close> exits with status 1 when there is no configuration.
\<close>

definition main :: "env \<Rightarrow> run" where
  "main e =
     (case AddToScheme e of
        Some err \<Rightarrow> ([NewScheme, SchemeAdd mapiv1beta1], Panicked)
      | None \<Rightarrow>
     (case pflag_Parse e of
        None \<Rightarrow> ([NewScheme, SchemeAdd mapiv1beta1, SetLogger, Parse], Exited 2)
      | Some fs \<Rightarrow>
     (case GetConfig e of
        Some err \<Rightarrow>
          ([NewScheme, SchemeAdd mapiv1beta1, SetLogger, Parse, LogToStderr (logToStderr fs),
            GetConfigOrDie],
           Exited 1)
      | None \<Rightarrow>
     (case NewManager e (managerOptions e fs) of
        Some err \<Rightarrow>
          ([NewScheme, SchemeAdd mapiv1beta1, SetLogger, Parse, LogToStderr (logToStderr fs),
            GetConfigOrDie, CallNewManager (managerOptions e fs),
            KlogError err ''unable to create manager''],
           Exited 1)
      | None \<Rightarrow>
          emit [NewScheme, SchemeAdd mapiv1beta1, SetLogger, Parse,
                LogToStderr (logToStderr fs), GetConfigOrDie,
                CallNewManager (managerOptions e fs)]
            (probeAndBranch e)))))"

subsection \<open>Predicates on runs\<close>

text \<open>The events of lines 58 to 128, in order, when every step up to the construction of
  the manager has been taken.\<close>

definition setupEvents :: "env \<Rightarrow> cmdline \<Rightarrow> event list" where
  "setupEvents e fs =
     [NewScheme, SchemeAdd mapiv1beta1, SetLogger, Parse, LogToStderr (logToStderr fs),
      GetConfigOrDie, CallNewManager (managerOptions e fs)]"

text \<open>A startup reaches the branch on the gate (line 150) with the snapshot \<open>g\<close> when the
  scheme, the flags, the configuration and the manager are set up without error, the probe
  returns an accessor, and the second read of the feature gates returns \<open>g\<close> and no
  error.\<close>

definition reachesGate :: "env \<Rightarrow> feature_gate \<Rightarrow> bool" where
  "reachesGate e g \<longleftrightarrow>
     AddToScheme e = None \<and>
     (case pflag_Parse e of None \<Rightarrow> False
      | Some fs \<Rightarrow> NewManager e (managerOptions e fs) = None) \<and>
     GetConfig e = None \<and>
     (case snd (getFeatureGates e) of Return (Inr a) \<Rightarrow> True | _ \<Rightarrow> False) \<and>
     CurrentFeatureGates e 1 = (Some g, None)"

text \<open>The blocking waits of the file: the \<^verbatim>\<open>select\<close> of the probe, the receive from
  \<^verbatim>\<open>stop.Done()\<close>, and the manager's event loop.\<close>

definition blocking :: "event \<Rightarrow> bool" where
  "blocking ev = (case ev of Select d \<Rightarrow> True | AwaitDone c \<Rightarrow> True | MgrStart c \<Rightarrow> True | _ \<Rightarrow> False)"

text \<open>The events that only \<^verbatim>\<open>getFeatureGates\<close> produces.\<close>

definition fromProbe :: "event \<Rightarrow> bool" where
  "fromProbe ev =
     (case ev of
        GetReleaseVersion \<Rightarrow> True | CallNewForConfig \<Rightarrow> True
      | NewSharedInformerFactory f \<Rightarrow> True | NewFeatureGateAccess a \<Rightarrow> True
      | GoRun a c \<Rightarrow> True | GoStart f c \<Rightarrow> True | Select d \<Rightarrow> True
      | KlogInfof s xs \<Rightarrow> True | _ \<Rightarrow> False)"

text \<open>The accessor that \<^verbatim>\<open>getFeatureGates\<close> constructs.\<close>

definition theAccessor :: "env \<Rightarrow> accessor" where
  "theAccessor e =
     FeatureGateAccess (util_GetReleaseVersion e) ''0.0.1-snapshot''
       (ClusterVersions (SharedInformerFactory 600000000000))
       (FeatureGates (SharedInformerFactory 600000000000))
       (LoggingEventRecorder ''machineapimigration'')"

subsection \<open>Sample environments\<close>

text \<open>The command line with no flags, and a cluster in which every call succeeds, the
  feature gates are observed two seconds into the wait, the gate is enabled and a
  termination signal eventually arrives.\<close>

definition no_flags :: cmdline where
  "no_flags =
     \<lparr> flag_health_addr = None, flag_namespace = None, flag_logtostderr = None,
       flag_metrics_bind_addr = None, flag_diagnostics_address = None,
       flag_insecure_diagnostics = None, flag_leader_elect = None,
       flag_leader_elect_lease_duration = None, flag_leader_elect_renew_deadline = None,
       flag_leader_elect_retry_period = None, flag_leader_elect_resource_name = None,
       flag_leader_elect_resource_namespace = None \<rparr>"

definition gate_on :: feature_gate where
  "gate_on =
     \<lparr> Enabled = (\<lambda>k. k = ''MachineAPIMigration''),
       KnownFeatures = [''MachineAPIMigration''] \<rparr>"

definition gate_off :: feature_gate where
  "gate_off = \<lparr> Enabled = (\<lambda>k. False), KnownFeatures = [''MachineAPIMigration''] \<rparr>"

definition env_on :: env where
  "env_on =
     \<lparr> util_LeaseDuration = 137 * Second,
       util_RenewDeadline = 107 * Second,
       util_RetryPeriod = 26 * Second,
       util_GetReleaseVersion = ''4.16.0'',
       controllers_DefaultManagedNamespace = ''openshift-cluster-api'',
       AddToScheme = None,
       pflag_Parse = Some no_flags,
       GetConfig = None,
       NewManager = (\<lambda>opts. None),
       NewForConfig = None,
       observed_at = Some (2 * Second),
       select_tie_observed = True,
       snapshot = (\<lambda>n. gate_on),
       AddHealthzCheck = None,
       AddReadyzCheck = None,
       signal_fires = True,
       Start_error = None \<rparr>"

definition env_off :: env where
  "env_off = env_on \<lparr> snapshot := (\<lambda>n. gate_off) \<rparr>"

text \<open>A cluster in which the first observation arrives only after 61 seconds.\<close>

definition env_late :: env where
  "env_late = env_on \<lparr> observed_at := Some (61 * Second) \<rparr>"

text \<open>Command lines with flags: leader election switched off and the lease renamed; a lease
  duration of one second with a renew deadline of two; another managed namespace.\<close>

definition flags_le_off :: cmdline where
  "flags_le_off =
     no_flags \<lparr> flag_leader_elect := Some False,
                flag_leader_elect_resource_name := Some ''another-lease'',
                flag_leader_elect_resource_namespace := Some ''default'' \<rparr>"

definition env_le_off :: env where
  "env_le_off = env_on \<lparr> pflag_Parse := Some flags_le_off \<rparr>"

definition flags_s6 :: cmdline where
  "flags_s6 =
     no_flags \<lparr> flag_leader_elect_lease_duration := Some (1 * Second),
                flag_leader_elect_renew_deadline := Some (2 * Second) \<rparr>"

definition env_s6 :: env where
  "env_s6 = env_on \<lparr> pflag_Parse := Some flags_s6 \<rparr>"

definition flags_ns :: cmdline where
  "flags_ns = no_flags \<lparr> flag_namespace := Some ''my-namespace'' \<rparr>"

definition env_ns :: env where
  "env_ns = env_on \<lparr> pflag_Parse := Some flags_ns \<rparr>"

section \<open>Properties\<close>

subsection \<open>The shape of the traces\<close>

lemma fst_emit [simp]: "fst (emit es r) = es @ fst r"
  by (simp add: emit_def)

lemma snd_emit [simp]: "snd (emit es r) = snd r"
  by (simp add: emit_def)

lemma getFeatureGates_trace:
  "fst (getFeatureGates e) = tr \<Longrightarrow>
   \<forall>ev \<in> set tr. ev = CallCurrentFeatureGates \<or> fromProbe ev"
  by (auto simp: getFeatureGates_def Let_def fromProbe_def split: option.splits select_case.splits)

lemma runManager_trace:
  "ev \<in> set (fst (runManager e stop)) \<Longrightarrow>
   ev = CallAddHealthzCheck ''health'' \<or> ev = CallAddReadyzCheck ''check'' \<or>
   ev = KlogInfo ''starting manager'' \<or> ev = MgrStart stop \<or> (\<exists>err s. ev = KlogError err s)"
  by (auto simp: runManager_def split: option.splits if_splits)

lemma branchOnGate_trace:
  "ev \<in> set (fst (branchOnGate e stop)) \<Longrightarrow>
   ev = CallCurrentFeatureGates \<or> ev = KlogInfo notEnabledNotice \<or> ev = AwaitDone stop \<or>
   ev = CallAddHealthzCheck ''health'' \<or> ev = CallAddReadyzCheck ''check'' \<or>
   ev = KlogInfo ''starting manager'' \<or> ev = MgrStart stop \<or> (\<exists>err s. ev = KlogError err s)"
  by (auto simp: branchOnGate_def split: option.splits if_splits prod.splits dest: runManager_trace)

lemma probeAndBranch_trace:
  "ev \<in> set (fst (probeAndBranch e)) \<Longrightarrow>
   ev = SetupSignalHandler \<or> ev \<in> set (fst (getFeatureGates e)) \<or>
   ev \<in> set (fst (branchOnGate e SignalContext)) \<or> (\<exists>err s. ev = KlogError err s)"
  by (cases "getFeatureGates e")
     (auto simp: probeAndBranch_def Let_def split: call.splits sum.splits)

lemma main_prefix:
  "fst (main e) = tr \<Longrightarrow>
   (set tr \<subseteq> {NewScheme, SchemeAdd mapiv1beta1, SetLogger, Parse, GetConfigOrDie} \<union> range LogToStderr
        \<union> range CallNewManager \<union> {ev. \<exists>err s. ev = KlogError err s}) \<or>
   (\<exists>fs. pflag_Parse e = Some fs \<and> tr = setupEvents e fs @ fst (probeAndBranch e))"
  by (auto simp: main_def setupEvents_def split: option.splits)

lemma main_CallNewManager:
  assumes "CallNewManager opts \<in> set (fst (main e))"
  shows "\<exists>fs. pflag_Parse e = Some fs \<and> opts = managerOptions e fs"
proof -
  have a: "CallNewManager opts \<notin> set (fst (getFeatureGates e))"
    using getFeatureGates_trace [of e] by (auto simp: fromProbe_def)
  have b: "CallNewManager opts \<notin> set (fst (branchOnGate e SignalContext))"
    using branchOnGate_trace [of "CallNewManager opts" e SignalContext] by auto
  have c: "CallNewManager opts \<notin> set (fst (probeAndBranch e))"
    using probeAndBranch_trace [of "CallNewManager opts" e] a b by auto
  show ?thesis
    using assms c by (auto simp: main_def split: option.splits)
qed

lemma main_at_gate:
  assumes "reachesGate e g" and "pflag_Parse e = Some fs"
  shows "main e =
     emit (setupEvents e fs @ [SetupSignalHandler] @ fst (getFeatureGates e))
       (branchOnGate e SignalContext)"
  using assms
  by (cases "getFeatureGates e")
     (auto simp: reachesGate_def main_def probeAndBranch_def emit_def setupEvents_def Let_def
           split: call.splits sum.splits)

lemma managerOptions_fields:
  "LeaderElection (managerOptions e fs) = flagVar True (flag_leader_elect fs)"
  "LeaderElectionID (managerOptions e fs) =
     flagVar ''machine-api-migration-leader'' (flag_leader_elect_resource_name fs)"
  "LeaderElectionNamespace (managerOptions e fs) =
     flagVar ''openshift-cluster-api'' (flag_leader_elect_resource_namespace fs)"
  "Options_LeaseDuration (managerOptions e fs) =
     Some (flagVar (util_LeaseDuration e) (flag_leader_elect_lease_duration fs))"
  "Options_RenewDeadline (managerOptions e fs) =
     Some (flagVar (util_RenewDeadline e) (flag_leader_elect_renew_deadline fs))"
  "Options_RetryPeriod (managerOptions e fs) =
     Some (flagVar (util_RetryPeriod e) (flag_leader_elect_retry_period fs))"
  "HealthProbeBindAddress (managerOptions e fs) = flagVar '':9441'' (flag_health_addr fs)"
  "Metrics (managerOptions e fs) =
     GetDiagnosticsOptions (AddDiagnosticsOptions fs diagnosticsOptions)"
  "Cache (managerOptions e fs) = cacheOpts e fs"
  "Scheme (managerOptions e fs) = [mapiv1beta1]"
  by (simp_all add: managerOptions_def Let_def BindLeaderElectionFlags_def leaderElectionConfig_def
        healthAddr_def initScheme_def)

lemma main_env_on:
  "main env_on =
    (setupEvents env_on no_flags @
     [SetupSignalHandler, GetReleaseVersion, CallNewForConfig,
      NewSharedInformerFactory (SharedInformerFactory 600000000000),
      NewFeatureGateAccess
        (FeatureGateAccess ''4.16.0'' ''0.0.1-snapshot''
          (ClusterVersions (SharedInformerFactory 600000000000))
          (FeatureGates (SharedInformerFactory 600000000000))
          (LoggingEventRecorder ''machineapimigration'')),
      GoRun
        (FeatureGateAccess ''4.16.0'' ''0.0.1-snapshot''
          (ClusterVersions (SharedInformerFactory 600000000000))
          (FeatureGates (SharedInformerFactory 600000000000))
          (LoggingEventRecorder ''machineapimigration'')) Background,
      GoStart (SharedInformerFactory 600000000000) Background,
      Select 60000000000, CallCurrentFeatureGates,
      KlogInfof ''FeatureGates initialized: %v'' [''MachineAPIMigration''],
      CallCurrentFeatureGates, CallAddHealthzCheck ''health'',
      CallAddReadyzCheck ''check'', KlogInfo ''starting manager'',
      MgrStart SignalContext],
     MainReturned)"
  by (simp add: main_def env_on_def emit_def probeAndBranch_def getFeatureGates_def
        select_wait_def Second_def Minute_def branchOnGate_def runManager_def gate_on_def
        FeatureGateMachineAPIMigration_def ctx_done_def Let_def setupEvents_def
        CurrentFeatureGates_def)

lemma reachesGate_env_on: "reachesGate env_on gate_on"
  by (simp add: reachesGate_def env_on_def getFeatureGates_def select_wait_def Second_def
        Minute_def Let_def CurrentFeatureGates_def)

lemma reachesGate_env_off: "reachesGate env_off gate_off"
  by (simp add: reachesGate_def env_off_def env_on_def getFeatureGates_def select_wait_def
        Second_def Minute_def Let_def CurrentFeatureGates_def)

lemma getFeatureGates_no_start:
  "MgrStart c \<notin> set (fst (getFeatureGates e))"
  "CallAddHealthzCheck n \<notin> set (fst (getFeatureGates e))"
  "CallAddReadyzCheck n \<notin> set (fst (getFeatureGates e))"
  "AwaitDone c \<notin> set (fst (getFeatureGates e))"
  using getFeatureGates_trace [of e] by (auto simp: fromProbe_def)

lemma setupEvents_no_start:
  "MgrStart c \<notin> set (setupEvents e fs)"
  "CallAddHealthzCheck n \<notin> set (setupEvents e fs)"
  "CallAddReadyzCheck n \<notin> set (setupEvents e fs)"
  "AwaitDone c \<notin> set (setupEvents e fs)"
  by (auto simp: setupEvents_def)

lemma setupEvents_quiet:
  "ev \<in> set (setupEvents e fs) \<Longrightarrow> \<not> blocking ev \<and> \<not> fromProbe ev"
  by (auto simp: setupEvents_def blocking_def fromProbe_def)

subsection \<open>The idle branch\<close>

text \<open>
  Claim C1. In every startup that reaches the branch on the gate with a snapshot in which
  MachineAPIMigration is not enabled, the trace ends with the informational notice followed by
  the wait on the signal context; the process then exits with code 0 if the signal fires and
  stays blocked otherwise; and neither probe is registered nor the manager's event loop
  started anywhere in the run. (The file registers no reconciler on any path.)
\<close>

theorem idle_when_gate_disabled:
  assumes "reachesGate e g" and "\<not> Enabled g FeatureGateMachineAPIMigration"
  shows "(\<exists>pre. fst (main e) = pre @ [KlogInfo notEnabledNotice, AwaitDone SignalContext]) \<and>
         snd (main e) = (if signal_fires e then Exited 0 else Blocked) \<and>
         (\<forall>ev \<in> set (fst (main e)). \<forall>c n.
            ev \<noteq> MgrStart c \<and> ev \<noteq> CallAddHealthzCheck n \<and> ev \<noteq> CallAddReadyzCheck n)"
proof -
  from assms(1) obtain fs where fs: "pflag_Parse e = Some fs"
    by (auto simp: reachesGate_def split: option.splits)
  have cur: "CurrentFeatureGates e 1 = (Some g, None)"
    using assms(1) by (simp add: reachesGate_def)
  have br: "branchOnGate e SignalContext =
      ([CallCurrentFeatureGates, KlogInfo notEnabledNotice, AwaitDone SignalContext],
       if signal_fires e then Exited 0 else Blocked)"
    using cur assms(2) by (simp add: branchOnGate_def ctx_done_def)
  have m: "main e =
      emit (setupEvents e fs @ [SetupSignalHandler] @ fst (getFeatureGates e))
        (branchOnGate e SignalContext)"
    by (rule main_at_gate [OF assms(1) fs])
  have tr: "fst (main e) =
      (setupEvents e fs @ [SetupSignalHandler] @ fst (getFeatureGates e) @ [CallCurrentFeatureGates])
        @ [KlogInfo notEnabledNotice, AwaitDone SignalContext]"
    by (simp add: m br)
  have out: "snd (main e) = (if signal_fires e then Exited 0 else Blocked)"
    by (simp add: m br)
  have none: "\<forall>ev \<in> set (fst (main e)). \<forall>c n.
      ev \<noteq> MgrStart c \<and> ev \<noteq> CallAddHealthzCheck n \<and> ev \<noteq> CallAddReadyzCheck n"
    unfolding tr by (auto simp: getFeatureGates_no_start setupEvents_no_start)
  from tr out none show ?thesis by blast
qed

theorem idle_when_gate_disabled_witness:
  "reachesGate env_off gate_off \<and> \<not> Enabled gate_off FeatureGateMachineAPIMigration \<and>
   signal_fires env_off \<and> snd (main env_off) = Exited 0 \<and>
   (\<exists>pre. fst (main env_off) = pre @ [KlogInfo notEnabledNotice, AwaitDone SignalContext])"
proof -
  have h: "\<not> Enabled gate_off FeatureGateMachineAPIMigration"
    by (simp add: gate_off_def)
  have s: "signal_fires env_off"
    by (simp add: env_off_def env_on_def)
  show ?thesis
    using idle_when_gate_disabled [OF reachesGate_env_off h] reachesGate_env_off h s by simp
qed

subsection \<open>The running branch\<close>

text \<open>
  Claim C3. In every startup that reaches the branch on the gate with MachineAPIMigration
  enabled: when both registrations succeed, the liveness probe "health" and the readiness
  probe "check" are registered, in this order, immediately before the "starting manager"
  notice and the one call of the manager's Start; when either registration fails, the
  process exits with code 1 and Start is never called.
\<close>

theorem probes_before_start:
  assumes "reachesGate e g" and "Enabled g FeatureGateMachineAPIMigration"
  shows "(AddHealthzCheck e = None \<and> AddReadyzCheck e = None \<longrightarrow>
            (\<exists>pre post. fst (main e) =
                pre @ [CallAddHealthzCheck ''health'', CallAddReadyzCheck ''check'',
                       KlogInfo ''starting manager'', MgrStart SignalContext] @ post \<and>
              (\<forall>ev \<in> set pre. \<forall>c. ev \<noteq> MgrStart c) \<and>
              (\<forall>ev \<in> set post. \<forall>c. ev \<noteq> MgrStart c))) \<and>
         (AddHealthzCheck e \<noteq> None \<or> AddReadyzCheck e \<noteq> None \<longrightarrow>
            snd (main e) = Exited 1 \<and> (\<forall>c. MgrStart c \<notin> set (fst (main e))))"
proof -
  from assms(1) obtain fs where fs: "pflag_Parse e = Some fs"
    by (auto simp: reachesGate_def split: option.splits)
  have cur: "CurrentFeatureGates e 1 = (Some g, None)"
    using assms(1) by (simp add: reachesGate_def)
  have br: "branchOnGate e SignalContext = emit [CallCurrentFeatureGates] (runManager e SignalContext)"
    using cur assms(2) by (simp add: branchOnGate_def)
  have m: "main e =
      emit (setupEvents e fs @ [SetupSignalHandler] @ fst (getFeatureGates e) @ [CallCurrentFeatureGates])
        (runManager e SignalContext)"
    using main_at_gate [OF assms(1) fs] by (simp add: br emit_def)
  let ?pre = "setupEvents e fs @ [SetupSignalHandler] @ fst (getFeatureGates e) @ [CallCurrentFeatureGates]"
  have pre: "\<forall>ev \<in> set ?pre. \<forall>c. ev \<noteq> MgrStart c"
    by (auto simp: getFeatureGates_no_start setupEvents_no_start)
  have ok: "\<exists>pre post. fst (main e) =
                pre @ [CallAddHealthzCheck ''health'', CallAddReadyzCheck ''check'',
                       KlogInfo ''starting manager'', MgrStart SignalContext] @ post \<and>
              (\<forall>ev \<in> set pre. \<forall>c. ev \<noteq> MgrStart c) \<and>
              (\<forall>ev \<in> set post. \<forall>c. ev \<noteq> MgrStart c)"
    if h: "AddHealthzCheck e = None" "AddReadyzCheck e = None"
  proof -
    let ?post = "fst (case Start_error e of
          Some err \<Rightarrow> ([KlogError err ''problem running manager''], Exited 1)
        | None \<Rightarrow> if ctx_done e SignalContext then ([], MainReturned) else ([], Blocked))"
    have "fst (main e) = ?pre @ [CallAddHealthzCheck ''health'', CallAddReadyzCheck ''check'',
                       KlogInfo ''starting manager'', MgrStart SignalContext] @ ?post"
      using h by (simp add: m runManager_def)
    moreover have "\<forall>ev \<in> set ?post. \<forall>c. ev \<noteq> MgrStart c"
      by (auto split: option.splits)
    ultimately show ?thesis using pre by blast
  qed
  have bad: "snd (main e) = Exited 1 \<and> (\<forall>c. MgrStart c \<notin> set (fst (main e)))"
    if h: "AddHealthzCheck e \<noteq> None \<or> AddReadyzCheck e \<noteq> None"
  proof -
    have r: "snd (runManager e SignalContext) = Exited 1 \<and>
             (\<forall>c. MgrStart c \<notin> set (fst (runManager e SignalContext)))"
      using h by (auto simp: runManager_def split: option.splits)
    show ?thesis using r pre by (auto simp: m)
  qed
  from ok bad show ?thesis by blast
qed

theorem probes_before_start_witness:
  "reachesGate env_on gate_on \<and> Enabled gate_on FeatureGateMachineAPIMigration \<and>
   AddHealthzCheck env_on = None \<and> AddReadyzCheck env_on = None \<and>
   (\<exists>pre post. fst (main env_on) =
      pre @ [CallAddHealthzCheck ''health'', CallAddReadyzCheck ''check'',
             KlogInfo ''starting manager'', MgrStart SignalContext] @ post)"
proof -
  have h: "Enabled gate_on FeatureGateMachineAPIMigration"
    by (simp add: gate_on_def FeatureGateMachineAPIMigration_def)
  have a: "AddHealthzCheck env_on = None \<and> AddReadyzCheck env_on = None"
    by (simp add: env_on_def)
  from probes_before_start [OF reachesGate_env_on h] a
  have "\<exists>pre post. fst (main env_on) =
      pre @ [CallAddHealthzCheck ''health'', CallAddReadyzCheck ''check'',
             KlogInfo ''starting manager'', MgrStart SignalContext] @ post"
    by blast
  then show ?thesis using reachesGate_env_on h a by simp
qed

subsection \<open>The signal handler\<close>

lemma before_first:
  assumes "\<forall>x \<in> set pre0. \<not> P x" and "\<not> P s"
    and "pre0 @ s # rest = pre @ ev # post" and "P ev"
  shows "s \<in> set pre"
  using assms
proof (induction pre0 arbitrary: pre)
  case Nil
  then show ?case by (cases pre) auto
next
  case (Cons x xs)
  show ?case
  proof (cases pre)
    case Nil
    with Cons.prems show ?thesis by auto
  next
    case (Cons a pre')
    with Cons.prems have "xs @ s # rest = pre' @ ev # post" by simp
    moreover from Cons.prems have "\<forall>x \<in> set xs. \<not> P x" by simp
    ultimately have "s \<in> set pre'"
      using Cons.IH Cons.prems(2,4) by blast
    then show ?thesis using Cons by simp
  qed
qed

lemma main_quiet_or_handler:
  "(\<forall>ev \<in> set (fst (main e)). \<not> (blocking ev \<or> fromProbe ev)) \<or>
   (\<exists>fs rest. fst (main e) = setupEvents e fs @ SetupSignalHandler # rest)"
  by (auto simp: main_def setupEvents_def probeAndBranch_def Let_def blocking_def fromProbe_def
        split: option.splits)

lemma main_contexts:
  assumes "AwaitDone c \<in> set (fst (main e)) \<or> MgrStart c \<in> set (fst (main e))"
  shows "c = SignalContext"
proof -
  have "AwaitDone c \<in> set (fst (probeAndBranch e)) \<or> MgrStart c \<in> set (fst (probeAndBranch e))"
    using assms by (auto simp: main_def split: option.splits)
  then have "AwaitDone c \<in> set (fst (branchOnGate e SignalContext)) \<or>
             MgrStart c \<in> set (fst (branchOnGate e SignalContext))"
    using probeAndBranch_trace [of "AwaitDone c" e] probeAndBranch_trace [of "MgrStart c" e]
    by (auto simp: getFeatureGates_no_start)
  then show ?thesis
    using branchOnGate_trace [of "AwaitDone c" e SignalContext]
      branchOnGate_trace [of "MgrStart c" e SignalContext]
    by auto
qed

text \<open>
  Claim C4. In every startup, every event of the feature-gate probe and every blocking wait
  (the probe's select, the idle wait, the manager's event loop) comes after the installation
  of the signal handler in the trace; the idle wait and the manager's event loop are given
  the signal context and no other; and the idle path is interruptible: when the gate is
  observed disabled and the signal fires, the process exits with code 0.
\<close>

theorem signal_handler_before_waits:
  "(\<forall>pre ev post. fst (main e) = pre @ ev # post \<and> (blocking ev \<or> fromProbe ev) \<longrightarrow>
      SetupSignalHandler \<in> set pre) \<and>
   (\<forall>c. AwaitDone c \<in> set (fst (main e)) \<or> MgrStart c \<in> set (fst (main e)) \<longrightarrow>
      c = SignalContext) \<and>
   (\<forall>g. reachesGate e g \<and> \<not> Enabled g FeatureGateMachineAPIMigration \<and> signal_fires e \<longrightarrow>
      snd (main e) = Exited 0)"
proof (intro conjI allI impI)
  fix pre ev post
  assume a: "fst (main e) = pre @ ev # post \<and> (blocking ev \<or> fromProbe ev)"
  show "SetupSignalHandler \<in> set pre"
  proof (rule disjE [OF main_quiet_or_handler [of e]])
    assume "\<forall>ev \<in> set (fst (main e)). \<not> (blocking ev \<or> fromProbe ev)"
    with a show ?thesis by auto
  next
    assume "\<exists>fs rest. fst (main e) = setupEvents e fs @ SetupSignalHandler # rest"
    then obtain fs rest where m: "fst (main e) = setupEvents e fs @ SetupSignalHandler # rest"
      by blast
    have q: "\<forall>x \<in> set (setupEvents e fs). \<not> (blocking x \<or> fromProbe x)"
      using setupEvents_quiet by blast
    have s: "\<not> (blocking SetupSignalHandler \<or> fromProbe SetupSignalHandler)"
      by (simp add: blocking_def fromProbe_def)
    from a m have eq: "setupEvents e fs @ SetupSignalHandler # rest = pre @ ev # post" by simp
    from a have p: "blocking ev \<or> fromProbe ev" by simp
    show ?thesis
      by (rule before_first [where P = "\<lambda>x. blocking x \<or> fromProbe x", OF q s eq p])
  qed
next
  fix c
  assume "AwaitDone c \<in> set (fst (main e)) \<or> MgrStart c \<in> set (fst (main e))"
  then show "c = SignalContext" by (rule main_contexts)
next
  fix g
  assume a: "reachesGate e g \<and> \<not> Enabled g FeatureGateMachineAPIMigration \<and> signal_fires e"
  then obtain fs where fs: "pflag_Parse e = Some fs"
    by (auto simp: reachesGate_def split: option.splits)
  have cur: "CurrentFeatureGates e 1 = (Some g, None)"
    using a by (simp add: reachesGate_def)
  have "snd (branchOnGate e SignalContext) = Exited 0"
    using cur a by (simp add: branchOnGate_def ctx_done_def)
  with a fs show "snd (main e) = Exited 0"
    by (simp add: main_at_gate [of e g fs])
qed

lemma main_env_off:
  "main env_off =
    (setupEvents env_off no_flags @
     [SetupSignalHandler, GetReleaseVersion, CallNewForConfig,
      NewSharedInformerFactory (SharedInformerFactory 600000000000),
      NewFeatureGateAccess
        (FeatureGateAccess ''4.16.0'' ''0.0.1-snapshot''
          (ClusterVersions (SharedInformerFactory 600000000000))
          (FeatureGates (SharedInformerFactory 600000000000))
          (LoggingEventRecorder ''machineapimigration'')),
      GoRun
        (FeatureGateAccess ''4.16.0'' ''0.0.1-snapshot''
          (ClusterVersions (SharedInformerFactory 600000000000))
          (FeatureGates (SharedInformerFactory 600000000000))
          (LoggingEventRecorder ''machineapimigration'')) Background,
      GoStart (SharedInformerFactory 600000000000) Background,
      Select 60000000000, CallCurrentFeatureGates,
      KlogInfof ''FeatureGates initialized: %v'' [''MachineAPIMigration''],
      CallCurrentFeatureGates, KlogInfo notEnabledNotice, AwaitDone SignalContext],
     Exited 0)"
  by (simp add: main_def env_off_def env_on_def emit_def probeAndBranch_def getFeatureGates_def
        select_wait_def Second_def Minute_def branchOnGate_def gate_off_def
        FeatureGateMachineAPIMigration_def ctx_done_def Let_def setupEvents_def
        CurrentFeatureGates_def)

theorem signal_handler_before_waits_witness:
  "fst (main env_off) = butlast (fst (main env_off)) @ AwaitDone SignalContext # [] \<and>
   blocking (AwaitDone SignalContext) \<and>
   SetupSignalHandler \<in> set (butlast (fst (main env_off))) \<and>
   reachesGate env_off gate_off \<and> \<not> Enabled gate_off FeatureGateMachineAPIMigration \<and>
   signal_fires env_off \<and> snd (main env_off) = Exited 0"
proof -
  have d: "fst (main env_off) = butlast (fst (main env_off)) @ AwaitDone SignalContext # []"
    by (simp add: main_env_off setupEvents_def butlast_append)
  have b: "blocking (AwaitDone SignalContext)"
    by (simp add: blocking_def)
  have h: "\<not> Enabled gate_off FeatureGateMachineAPIMigration"
    by (simp add: gate_off_def)
  have s: "signal_fires env_off"
    by (simp add: env_off_def env_on_def)
  have t: "\<forall>pre ev post. fst (main env_off) = pre @ ev # post \<and> (blocking ev \<or> fromProbe ev) \<longrightarrow>
      SetupSignalHandler \<in> set pre"
    using signal_handler_before_waits [of env_off] by blast
  have x: "\<forall>g. reachesGate env_off g \<and> \<not> Enabled g FeatureGateMachineAPIMigration \<and> signal_fires env_off \<longrightarrow>
      snd (main env_off) = Exited 0"
    using signal_handler_before_waits [of env_off] by blast
  from t d b have "SetupSignalHandler \<in> set (butlast (fst (main env_off)))" by blast
  moreover from x reachesGate_env_off h s have "snd (main env_off) = Exited 0" by blast
  ultimately show ?thesis using d b h s reachesGate_env_off by blast
qed

subsection \<open>The feature-gate probe\<close>

lemma getFeatureGates_result:
  "snd (getFeatureGates e) =
     (case NewForConfig e of
        Some err \<Rightarrow> Return (Inl (Errorf ''failed to create config client'' err))
      | None \<Rightarrow>
          (case select_wait (observed_at e) (1 * Minute) (select_tie_observed e) of
             TimeAfter \<Rightarrow> Return (Inl errTimedOutWaitingForFeatureGates)
           | InitialFeatureGatesObserved \<Rightarrow> Return (Inr (theAccessor e))))"
  by (simp add: getFeatureGates_def Let_def theAccessor_def Minute_def Second_def
        CurrentFeatureGates_def split: option.splits select_case.splits)

lemma select_wait_minute:
  "select_wait obs (1 * Minute) tie = TimeAfter \<longleftrightarrow>
     (case obs of None \<Rightarrow> True | Some t \<Rightarrow> 60000000000 < t \<or> (t = 60000000000 \<and> \<not> tie))"
  by (auto simp: select_wait_def Minute_def Second_def split: option.splits)

text \<open>
  Claim C2. The wait takes place once the config client has been created (otherwise the
  probe returns the client's error at once). The probe then returns
  errTimedOutWaitingForFeatureGates exactly when 60 seconds elapse without the accessor
  signalling its initial observation: it is never signalled, or it is signalled later than
  that. When the observation is signalled first, the probe returns the accessor and no
  error. (A signal in the very nanosecond the timer fires leaves both channels ready, and
  the \<^verbatim>\<open>select\<close> takes either case; each case returns as said.)
\<close>

theorem probe_timeout:
  "(snd (getFeatureGates e) = Return (Inl errTimedOutWaitingForFeatureGates) \<longleftrightarrow>
      NewForConfig e = None \<and>
      (case observed_at e of
         None \<Rightarrow> True
       | Some t \<Rightarrow> 60000000000 < t \<or> (t = 60000000000 \<and> \<not> select_tie_observed e))) \<and>
   (\<forall>t. NewForConfig e = None \<and> observed_at e = Some t \<and>
        (t < 60000000000 \<or> (t = 60000000000 \<and> select_tie_observed e)) \<longrightarrow>
      snd (getFeatureGates e) = Return (Inr (theAccessor e)))"
proof -
  have w: "select_wait (observed_at e) (1 * Minute) (select_tie_observed e) = TimeAfter \<longleftrightarrow>
      (case observed_at e of
         None \<Rightarrow> True
       | Some t \<Rightarrow> 60000000000 < t \<or> (t = 60000000000 \<and> \<not> select_tie_observed e))"
    by (rule select_wait_minute)
  have first: "snd (getFeatureGates e) = Return (Inl errTimedOutWaitingForFeatureGates) \<longleftrightarrow>
      NewForConfig e = None \<and>
      select_wait (observed_at e) (1 * Minute) (select_tie_observed e) = TimeAfter"
    by (simp add: getFeatureGates_result split: option.splits select_case.splits)
  have second: "snd (getFeatureGates e) = Return (Inr (theAccessor e))"
    if h: "NewForConfig e = None \<and> observed_at e = Some t \<and>
        (t < 60000000000 \<or> (t = 60000000000 \<and> select_tie_observed e))" for t
  proof -
    from h have "\<not> (60000000000 < t \<or> (t = 60000000000 \<and> \<not> select_tie_observed e))"
      by auto
    with h w have "select_wait (observed_at e) (1 * Minute) (select_tie_observed e) \<noteq> TimeAfter"
      by simp
    then have "select_wait (observed_at e) (1 * Minute) (select_tie_observed e)
        = InitialFeatureGatesObserved"
      by (cases "select_wait (observed_at e) (1 * Minute) (select_tie_observed e)") simp_all
    with h show ?thesis
      by (simp add: getFeatureGates_result)
  qed
  from first w second show ?thesis by blast
qed

theorem probe_timeout_witness:
  "NewForConfig env_late = None \<and> observed_at env_late = Some 61000000000 \<and>
   snd (getFeatureGates env_late) = Return (Inl errTimedOutWaitingForFeatureGates) \<and>
   NewForConfig env_on = None \<and> observed_at env_on = Some 2000000000 \<and>
   snd (getFeatureGates env_on) = Return (Inr (theAccessor env_on))"
proof -
  have a: "NewForConfig env_late = None \<and> observed_at env_late = Some 61000000000"
    by (simp add: env_late_def env_on_def Second_def)
  have b: "NewForConfig env_on = None \<and> observed_at env_on = Some 2000000000"
    by (simp add: env_on_def Second_def)
  have la: "NewForConfig env_late = None \<and>
      (case observed_at env_late of
         None \<Rightarrow> True
       | Some t \<Rightarrow> 60000000000 < t \<or> (t = 60000000000 \<and> \<not> select_tie_observed env_late))"
    using a by simp
  have l: "snd (getFeatureGates env_late) = Return (Inl errTimedOutWaitingForFeatureGates)"
    by (rule probe_timeout [of env_late, THEN conjunct1, THEN iffD2, OF la])
  have ob: "NewForConfig env_on = None \<and> observed_at env_on = Some 2000000000 \<and>
      ((2000000000::int) < 60000000000 \<or>
       ((2000000000::int) = 60000000000 \<and> select_tie_observed env_on))"
    using b by simp
  have r: "snd (getFeatureGates env_on) = Return (Inr (theAccessor env_on))"
    by (rule probe_timeout [of env_on, THEN conjunct2, THEN spec, THEN mp, OF ob])
  from a b l r show ?thesis by blast
qed

text \<open>
  Claim C7. When the config client is created, exactly one accessor is constructed: with the
  release version of the running process as desired version, "0.0.1-snapshot" as missing
  version, and the cluster-version and feature-gate informers of one shared informer factory
  whose resync period is 10 minutes; it is the accessor the probe returns. When the client
  cannot be created, no accessor is constructed.
\<close>

theorem accessor_construction:
  "(NewForConfig e = None \<longrightarrow>
      (\<forall>a. NewFeatureGateAccess a \<in> set (fst (getFeatureGates e)) \<longleftrightarrow>
         a = FeatureGateAccess (util_GetReleaseVersion e) ''0.0.1-snapshot''
               (ClusterVersions (SharedInformerFactory 600000000000))
               (FeatureGates (SharedInformerFactory 600000000000))
               (LoggingEventRecorder ''machineapimigration'')) \<and>
      (\<forall>f. NewSharedInformerFactory f \<in> set (fst (getFeatureGates e)) \<longleftrightarrow>
         f = SharedInformerFactory (10 * Minute))) \<and>
   (NewForConfig e \<noteq> None \<longrightarrow> (\<forall>a. NewFeatureGateAccess a \<notin> set (fst (getFeatureGates e)))) \<and>
   (\<forall>a. snd (getFeatureGates e) = Return (Inr a) \<longrightarrow>
      a = FeatureGateAccess (util_GetReleaseVersion e) ''0.0.1-snapshot''
            (ClusterVersions (SharedInformerFactory 600000000000))
            (FeatureGates (SharedInformerFactory 600000000000))
            (LoggingEventRecorder ''machineapimigration''))"
  by (auto simp: getFeatureGates_def Let_def Minute_def Second_def CurrentFeatureGates_def
        split: option.splits select_case.splits)

theorem accessor_construction_witness:
  "NewForConfig env_on = None \<and>
   NewFeatureGateAccess
     (FeatureGateAccess ''4.16.0'' ''0.0.1-snapshot''
        (ClusterVersions (SharedInformerFactory 600000000000))
        (FeatureGates (SharedInformerFactory 600000000000))
        (LoggingEventRecorder ''machineapimigration'')) \<in> set (fst (getFeatureGates env_on))"
proof -
  have a: "NewForConfig env_on = None" "util_GetReleaseVersion env_on = ''4.16.0''"
    by (simp_all add: env_on_def)
  from accessor_construction [of env_on] a show ?thesis by simp
qed

subsection \<open>Flags and manager options\<close>

lemma main_calls_NewManager:
  assumes "AddToScheme e = None" and "pflag_Parse e = Some fs" and "GetConfig e = None"
  shows "CallNewManager (managerOptions e fs) \<in> set (fst (main e))"
  using assms by (simp add: main_def split: option.splits)

lemma main_LogToStderr:
  assumes "AddToScheme e = None" and "pflag_Parse e = Some fs"
  shows "LogToStderr (logToStderr fs) \<in> set (fst (main e))"
  using assms by (simp add: main_def split: option.splits)

text \<open>
  Claim C5, as stated, fails: the leader-election flags are bound to the configuration before
  the manager is constructed, so a command line can switch leader election off and name
  another lease and namespace.
\<close>

theorem leader_election_switched_off_by_flag:
  "CallNewManager (managerOptions env_le_off flags_le_off) \<in> set (fst (main env_le_off)) \<and>
   LeaderElection (managerOptions env_le_off flags_le_off) = False \<and>
   LeaderElectionID (managerOptions env_le_off flags_le_off) = ''another-lease'' \<and>
   LeaderElectionNamespace (managerOptions env_le_off flags_le_off) = ''default''"
proof -
  have "CallNewManager (managerOptions env_le_off flags_le_off) \<in> set (fst (main env_le_off))"
    by (rule main_calls_NewManager) (simp_all add: env_le_off_def env_on_def)
  then show ?thesis
    by (simp add: managerOptions_fields flagVar_def flags_le_off_def no_flags_def)
qed

text \<open>
  Claim C5, amended. The manager is constructed once, and in its options leader election,
  the lease name and the lease namespace are the values of \<^verbatim>\<open>--leader-elect\<close>,
  \<^verbatim>\<open>--leader-elect-resource-name\<close> and \<^verbatim>\<open>--leader-elect-resource-namespace\<close> where
  supplied, and otherwise true, "machine-api-migration-leader" and "openshift-cluster-api";
  so when none of the three flags is supplied, leader election is enabled with that lease
  name and namespace.
\<close>

theorem leader_election_options:
  assumes "pflag_Parse e = Some fs" and "CallNewManager opts \<in> set (fst (main e))"
  shows "LeaderElection opts = flagVar True (flag_leader_elect fs) \<and>
         LeaderElectionID opts =
           flagVar ''machine-api-migration-leader'' (flag_leader_elect_resource_name fs) \<and>
         LeaderElectionNamespace opts =
           flagVar ''openshift-cluster-api'' (flag_leader_elect_resource_namespace fs) \<and>
         (flag_leader_elect fs = None \<and> flag_leader_elect_resource_name fs = None \<and>
          flag_leader_elect_resource_namespace fs = None \<longrightarrow>
            LeaderElection opts \<and> LeaderElectionID opts = ''machine-api-migration-leader'' \<and>
            LeaderElectionNamespace opts = ''openshift-cluster-api'')"
proof -
  from main_CallNewManager [OF assms(2)] assms(1) have "opts = managerOptions e fs"
    by auto
  then show ?thesis
    by (simp add: managerOptions_fields flagVar_def)
qed

theorem leader_election_options_witness:
  "pflag_Parse env_on = Some no_flags \<and>
   CallNewManager (managerOptions env_on no_flags) \<in> set (fst (main env_on)) \<and>
   LeaderElection (managerOptions env_on no_flags) \<and>
   LeaderElectionID (managerOptions env_on no_flags) = ''machine-api-migration-leader'' \<and>
   LeaderElectionNamespace (managerOptions env_on no_flags) = ''openshift-cluster-api''"
proof -
  have p: "pflag_Parse env_on = Some no_flags"
    by (simp add: env_on_def)
  have c: "CallNewManager (managerOptions env_on no_flags) \<in> set (fst (main env_on))"
    by (rule main_calls_NewManager) (simp_all add: env_on_def)
  have n: "flag_leader_elect no_flags = None \<and> flag_leader_elect_resource_name no_flags = None \<and>
          flag_leader_elect_resource_namespace no_flags = None"
    by (simp add: no_flags_def)
  from leader_election_options [OF p c] n
  have "LeaderElection (managerOptions env_on no_flags) \<and>
   LeaderElectionID (managerOptions env_on no_flags) = ''machine-api-migration-leader'' \<and>
   LeaderElectionNamespace (managerOptions env_on no_flags) = ''openshift-cluster-api''"
    by blast
  with p c show ?thesis by blast
qed

text \<open>
  Claim C6. The cache options handed to the manager have exactly one default namespace, the
  value of the \<^verbatim>\<open>--namespace\<close> flag (the package default when the flag is not supplied),
  mapped to the empty configuration, and a resync period of 10 minutes.
\<close>

theorem cache_single_namespace:
  assumes "pflag_Parse e = Some fs" and "CallNewManager opts \<in> set (fst (main e))"
  shows "dom (DefaultNamespaces (Cache opts)) =
           {flagVar (controllers_DefaultManagedNamespace e) (flag_namespace fs)} \<and>
         DefaultNamespaces (Cache opts)
           (flagVar (controllers_DefaultManagedNamespace e) (flag_namespace fs)) = Some EmptyConfig \<and>
         SyncPeriod (Cache opts) = Some 600000000000"
proof -
  from main_CallNewManager [OF assms(2)] assms(1) have "opts = managerOptions e fs"
    by auto
  then show ?thesis
    by (simp add: managerOptions_fields cacheOpts_def managedNamespace_def Let_def
          Minute_def Second_def)
qed

theorem cache_single_namespace_witness:
  "pflag_Parse env_ns = Some flags_ns \<and>
   CallNewManager (managerOptions env_ns flags_ns) \<in> set (fst (main env_ns)) \<and>
   dom (DefaultNamespaces (Cache (managerOptions env_ns flags_ns))) = {''my-namespace''} \<and>
   SyncPeriod (Cache (managerOptions env_ns flags_ns)) = Some 600000000000"
proof -
  have p: "pflag_Parse env_ns = Some flags_ns"
    by (simp add: env_ns_def)
  have c: "CallNewManager (managerOptions env_ns flags_ns) \<in> set (fst (main env_ns))"
    by (rule main_calls_NewManager) (simp_all add: env_ns_def env_on_def)
  have f: "flagVar (controllers_DefaultManagedNamespace env_ns) (flag_namespace flags_ns)
      = ''my-namespace''"
    by (simp add: flagVar_def flags_ns_def)
  from cache_single_namespace [OF p c] f p c show ?thesis by simp
qed

text \<open>
  Claim C8, as stated, fails: with \<^verbatim>\<open>--leader-elect-lease-duration=1s\<close> and
  \<^verbatim>\<open>--leader-elect-renew-deadline=2s\<close> the manager is constructed with a renew deadline
  above the lease duration, and \<^verbatim>\<open>main\<close> goes on to start it.
\<close>

theorem durations_from_flags_unordered:
  "CallNewManager (managerOptions env_s6 flags_s6) \<in> set (fst (main env_s6)) \<and>
   MgrStart SignalContext \<in> set (fst (main env_s6)) \<and>
   Options_LeaseDuration (managerOptions env_s6 flags_s6) = Some 1000000000 \<and>
   Options_RenewDeadline (managerOptions env_s6 flags_s6) = Some 2000000000 \<and>
   \<not> ((2000000000::int) < 1000000000)"
proof -
  have c: "CallNewManager (managerOptions env_s6 flags_s6) \<in> set (fst (main env_s6))"
    by (rule main_calls_NewManager) (simp_all add: env_s6_def env_on_def)
  have m: "MgrStart SignalContext \<in> set (fst (main env_s6))"
    by (simp add: main_def env_s6_def env_on_def emit_def probeAndBranch_def getFeatureGates_def
        select_wait_def Second_def Minute_def branchOnGate_def runManager_def gate_on_def
        FeatureGateMachineAPIMigration_def ctx_done_def Let_def CurrentFeatureGates_def)
  from c m show ?thesis
    by (simp add: managerOptions_fields flagVar_def flags_s6_def no_flags_def Second_def)
qed

text \<open>
  Claim C8, amended. Each of the three durations handed to the manager is the value of its
  leader-election flag where supplied and the constant of \<^verbatim>\<open>pkg/util\<close> otherwise;
  \<^verbatim>\<open>main\<close> does not compare them. So when no duration flag is supplied and the constants
  satisfy retry period < renew deadline < lease duration, so do the manager's durations.
\<close>

theorem durations_options:
  assumes "pflag_Parse e = Some fs" and "CallNewManager opts \<in> set (fst (main e))"
  shows "Options_LeaseDuration opts =
           Some (flagVar (util_LeaseDuration e) (flag_leader_elect_lease_duration fs)) \<and>
         Options_RenewDeadline opts =
           Some (flagVar (util_RenewDeadline e) (flag_leader_elect_renew_deadline fs)) \<and>
         Options_RetryPeriod opts =
           Some (flagVar (util_RetryPeriod e) (flag_leader_elect_retry_period fs)) \<and>
         (flag_leader_elect_lease_duration fs = None \<and>
          flag_leader_elect_renew_deadline fs = None \<and>
          flag_leader_elect_retry_period fs = None \<and>
          util_RetryPeriod e < util_RenewDeadline e \<and> util_RenewDeadline e < util_LeaseDuration e \<longrightarrow>
            (\<exists>retry renew lease. Options_RetryPeriod opts = Some retry \<and>
               Options_RenewDeadline opts = Some renew \<and> Options_LeaseDuration opts = Some lease \<and>
               retry < renew \<and> renew < lease))"
proof -
  from main_CallNewManager [OF assms(2)] assms(1) have "opts = managerOptions e fs"
    by auto
  then show ?thesis
    by (simp add: managerOptions_fields flagVar_def)
qed

theorem durations_options_witness:
  "pflag_Parse env_on = Some no_flags \<and>
   CallNewManager (managerOptions env_on no_flags) \<in> set (fst (main env_on)) \<and>
   Options_RetryPeriod (managerOptions env_on no_flags) = Some 26000000000 \<and>
   Options_RenewDeadline (managerOptions env_on no_flags) = Some 107000000000 \<and>
   Options_LeaseDuration (managerOptions env_on no_flags) = Some 137000000000"
proof -
  have p: "pflag_Parse env_on = Some no_flags"
    by (simp add: env_on_def)
  have c: "CallNewManager (managerOptions env_on no_flags) \<in> set (fst (main env_on))"
    by (rule main_calls_NewManager) (simp_all add: env_on_def)
  have v: "flagVar (util_LeaseDuration env_on) (flag_leader_elect_lease_duration no_flags)
             = 137000000000"
     "flagVar (util_RenewDeadline env_on) (flag_leader_elect_renew_deadline no_flags)
             = 107000000000"
     "flagVar (util_RetryPeriod env_on) (flag_leader_elect_retry_period no_flags)
             = 26000000000"
    by (simp_all add: flagVar_def no_flags_def env_on_def Second_def)
  from durations_options [OF p c] v p c show ?thesis by simp
qed

lemma metrics_without_flags:
  "Metrics (managerOptions e no_flags) = \<lparr> BindAddress = '':8443'', SecureServing = True \<rparr>"
  by (simp add: managerOptions_fields GetDiagnosticsOptions_def AddDiagnosticsOptions_def
        flagVar_def no_flags_def)

text \<open>
  Claim C9 holds of the code except for the metrics address. When the command line has no
  flags (and the run gets as far as constructing the manager), logging goes to standard
  error, and the manager is constructed with health address ":9441" and with the default
  managed namespace of the controllers package as its only cache namespace. The ":8081" that
  line 70 puts into the diagnostics options does not reach the manager: registering the
  diagnostics flags on the options overwrites it with the empty default of
  \<^verbatim>\<open>--metrics-bind-addr\<close>, and the manager is constructed to serve metrics on the default
  diagnostics address ":8443", with secure serving.
\<close>

theorem metrics_default_overwritten:
  assumes "AddToScheme e = None" and "pflag_Parse e = Some no_flags" and "GetConfig e = None"
  shows "LogToStderr True \<in> set (fst (main e)) \<and>
         (\<forall>b. LogToStderr b \<in> set (fst (main e)) \<longrightarrow> b) \<and>
         (\<exists>opts. CallNewManager opts \<in> set (fst (main e))) \<and>
         (\<forall>opts. CallNewManager opts \<in> set (fst (main e)) \<longrightarrow>
            HealthProbeBindAddress opts = '':9441'' \<and>
            dom (DefaultNamespaces (Cache opts)) = {controllers_DefaultManagedNamespace e} \<and>
            BindAddress (Metrics opts) = '':8443'' \<and>
            SecureServing (Metrics opts) \<and>
            BindAddress (Metrics opts) \<noteq> '':8081'')"
proof -
  have l: "logToStderr no_flags = True"
    by (simp add: logToStderr_def flagVar_def no_flags_def)
  have a: "LogToStderr True \<in> set (fst (main e))"
    using main_LogToStderr [OF assms(1,2)] l by simp
  have b: "\<forall>b. LogToStderr b \<in> set (fst (main e)) \<longrightarrow> b"
  proof (intro allI impI)
    fix b assume h: "LogToStderr b \<in> set (fst (main e))"
    have x: "LogToStderr b \<notin> set (fst (getFeatureGates e))"
      using getFeatureGates_trace [of e] by (auto simp: fromProbe_def)
    have y: "LogToStderr b \<notin> set (fst (branchOnGate e SignalContext))"
      using branchOnGate_trace [of "LogToStderr b" e SignalContext] by auto
    have z: "LogToStderr b \<notin> set (fst (probeAndBranch e))"
      using probeAndBranch_trace [of "LogToStderr b" e] x y by auto
    from h z assms l show b
      by (auto simp: main_def split: option.splits)
  qed
  have c: "CallNewManager (managerOptions e no_flags) \<in> set (fst (main e))"
    by (rule main_calls_NewManager [OF assms])
  have d: "\<forall>opts. CallNewManager opts \<in> set (fst (main e)) \<longrightarrow>
            HealthProbeBindAddress opts = '':9441'' \<and>
            dom (DefaultNamespaces (Cache opts)) = {controllers_DefaultManagedNamespace e} \<and>
            BindAddress (Metrics opts) = '':8443'' \<and>
            SecureServing (Metrics opts) \<and>
            BindAddress (Metrics opts) \<noteq> '':8081''"
  proof (intro allI impI)
    fix opts assume "CallNewManager opts \<in> set (fst (main e))"
    from main_CallNewManager [OF this] assms(2) have o: "opts = managerOptions e no_flags"
      by auto
    have m: "Metrics opts = \<lparr> BindAddress = '':8443'', SecureServing = True \<rparr>"
      by (simp add: o metrics_without_flags)
    have h: "HealthProbeBindAddress opts = '':9441''"
      by (simp add: o managerOptions_fields flagVar_def no_flags_def)
    have n: "dom (DefaultNamespaces (Cache opts)) = {controllers_DefaultManagedNamespace e}"
      by (simp add: o managerOptions_fields flagVar_def no_flags_def cacheOpts_def
            managedNamespace_def Let_def)
    show "HealthProbeBindAddress opts = '':9441'' \<and>
            dom (DefaultNamespaces (Cache opts)) = {controllers_DefaultManagedNamespace e} \<and>
            BindAddress (Metrics opts) = '':8443'' \<and>
            SecureServing (Metrics opts) \<and>
            BindAddress (Metrics opts) \<noteq> '':8081''"
      by (simp add: m h n)
  qed
  from a b c d show ?thesis by blast
qed

theorem metrics_default_overwritten_witness:
  "AddToScheme env_on = None \<and> pflag_Parse env_on = Some no_flags \<and> GetConfig env_on = None \<and>
   LogToStderr True \<in> set (fst (main env_on)) \<and>
   CallNewManager (managerOptions env_on no_flags) \<in> set (fst (main env_on)) \<and>
   HealthProbeBindAddress (managerOptions env_on no_flags) = '':9441'' \<and>
   dom (DefaultNamespaces (Cache (managerOptions env_on no_flags))) = {''openshift-cluster-api''} \<and>
   BindAddress (Metrics (managerOptions env_on no_flags)) = '':8443'' \<and>
   SecureServing (Metrics (managerOptions env_on no_flags))"
proof -
  have h: "AddToScheme env_on = None" "pflag_Parse env_on = Some no_flags" "GetConfig env_on = None"
    by (simp_all add: env_on_def)
  have c: "CallNewManager (managerOptions env_on no_flags) \<in> set (fst (main env_on))"
    by (rule main_calls_NewManager [OF h])
  have n: "controllers_DefaultManagedNamespace env_on = ''openshift-cluster-api''"
    by (simp add: env_on_def)
  note t = metrics_default_overwritten [OF h]
  from t have l: "LogToStderr True \<in> set (fst (main env_on))" by (rule conjunct1)
  from t have "\<forall>opts. CallNewManager opts \<in> set (fst (main env_on)) \<longrightarrow>
            HealthProbeBindAddress opts = '':9441'' \<and>
            dom (DefaultNamespaces (Cache opts)) = {controllers_DefaultManagedNamespace env_on} \<and>
            BindAddress (Metrics opts) = '':8443'' \<and>
            SecureServing (Metrics opts) \<and>
            BindAddress (Metrics opts) \<noteq> '':8081''"
    by blast
  with c have "HealthProbeBindAddress (managerOptions env_on no_flags) = '':9441'' \<and>
            dom (DefaultNamespaces (Cache (managerOptions env_on no_flags)))
              = {controllers_DefaultManagedNamespace env_on} \<and>
            BindAddress (Metrics (managerOptions env_on no_flags)) = '':8443'' \<and>
            SecureServing (Metrics (managerOptions env_on no_flags))"
    by blast
  with h c l n show ?thesis by simp
qed

end
